theory Spec2Isabelle
  imports Complex_Main "HOL-Library.Sublist"
begin

section \<open>The PMV prediction service of app.py\<close>

text \<open>
  The service of \<^verbatim>\<open>app.py\<close>: a comfort classifier, a clamp, a request handler that
  validates a JSON payload, calls a scaler and a regression model, and two global
  variables holding the latest reading and a bounded history.

  Python floats are modelled by their values: a finite float is the real number it
  denotes, and the three special values are constructors of their own. The comparisons
  of the classifier and of \<^verbatim>\<open>np.clip\<close> are exact on floats, so they agree with the
  comparisons of the reals on finite values; every comparison with NaN is false.
\<close>

subsection \<open>Floats and their comparisons\<close>

datatype pyfloat = Fin real | PInf | NInf | NaN

text \<open>\<^verbatim>\<open>a < b\<close> on floats.\<close>

fun flt :: "pyfloat \<Rightarrow> pyfloat \<Rightarrow> bool" where
  "flt NaN b = False"
| "flt a NaN = False"
| "flt (Fin a) (Fin b) = (a < b)"
| "flt (Fin a) PInf = True"
| "flt (Fin a) NInf = False"
| "flt PInf b = False"
| "flt NInf NInf = False"
| "flt NInf b = True"

text \<open>\<^verbatim>\<open>a <= b\<close> on floats.\<close>

fun fle :: "pyfloat \<Rightarrow> pyfloat \<Rightarrow> bool" where
  "fle NaN b = False"
| "fle a NaN = False"
| "fle (Fin a) (Fin b) = (a \<le> b)"
| "fle (Fin a) PInf = True"
| "fle (Fin a) NInf = False"
| "fle PInf PInf = True"
| "fle PInf b = False"
| "fle NInf b = True"

fun isnan :: "pyfloat \<Rightarrow> bool" where
  "isnan NaN = True"
| "isnan x = False"

subsection \<open>The comfort classifier\<close>

text \<open>
  \<^verbatim>\<open>get_thermal_comfort_status(pmv)\<close>: an if/elif chain of chained comparisons;
  \<^verbatim>\<open>a < x < b\<close> is \<^verbatim>\<open>a < x and x < b\<close>.
\<close>

definition get_thermal_comfort_status :: "pyfloat \<Rightarrow> string" where
  "get_thermal_comfort_status pmv =
     (if flt (Fin (-1)) pmv \<and> flt pmv (Fin 1) then ''Normal''
      else if flt (Fin (-2)) pmv \<and> fle pmv (Fin (-1)) then ''A bit Cool''
      else if flt (Fin (-3)) pmv \<and> fle pmv (Fin (-2)) then ''Cool''
      else if fle pmv (Fin (-3)) then ''Cold''
      else if fle (Fin 1) pmv \<and> flt pmv (Fin 2) then ''A bit Warm''
      else if fle (Fin 2) pmv \<and> flt pmv (Fin 3) then ''Warm''
      else ''Hot'')"

subsection \<open>The clamp\<close>

text \<open>
  \<^verbatim>\<open>np.clip(x, lo, hi)\<close> is \<^verbatim>\<open>np.minimum(np.maximum(x, lo), hi)\<close>; both
  propagate NaN.
\<close>

definition np_maximum :: "pyfloat \<Rightarrow> pyfloat \<Rightarrow> pyfloat" where
  "np_maximum a b = (if isnan a \<or> isnan b then NaN else if flt a b then b else a)"

definition np_minimum :: "pyfloat \<Rightarrow> pyfloat \<Rightarrow> pyfloat" where
  "np_minimum a b = (if isnan a \<or> isnan b then NaN else if flt b a then b else a)"

definition np_clip :: "pyfloat \<Rightarrow> pyfloat \<Rightarrow> pyfloat \<Rightarrow> pyfloat" where
  "np_clip x lo hi = np_minimum (np_maximum x lo) hi"

subsection \<open>JSON payloads and Python's operations on them\<close>

datatype json =
    JNull
  | JBool bool
  | JInt int
  | JFloat pyfloat
  | JStr string
  | JArr "json list"
  | JObj "(string \<times> json) list"

text \<open>
  The exceptions that can be raised inside the handler. \<open>HTTPError\<close> is what
  \<^verbatim>\<open>request.get_json()\<close> raises on a body that is not JSON; \<open>LibraryError\<close> is
  anything raised by the scaler or the model.
\<close>

datatype exn =
    TypeError
  | ValueError
  | KeyError
  | OverflowError
  | HTTPError string
  | LibraryError string

text \<open>
  \<^verbatim>\<open>field in data\<close>: key membership for a dict, element membership for a list,
  substring for a string, and a TypeError for a value that is not a container.
\<close>

fun py_in :: "string \<Rightarrow> json \<Rightarrow> exn + bool" where
  "py_in field (JObj kvs) = Inr (field \<in> set (map fst kvs))"
| "py_in field (JArr xs) = Inr (JStr field \<in> set xs)"
| "py_in field (JStr s) = Inr (sublist field s)"
| "py_in field d = Inl TypeError"

text \<open>
  \<^verbatim>\<open>data[key]\<close> with a string key. A JSON object with a repeated key is parsed into
  a dict that keeps the last value.
\<close>

fun py_getitem :: "json \<Rightarrow> string \<Rightarrow> exn + json" where
  "py_getitem (JObj kvs) key =
     (case map_of (rev kvs) key of None \<Rightarrow> Inl KeyError | Some v \<Rightarrow> Inr v)"
| "py_getitem d key = Inl TypeError"

text \<open>
  The builtin \<^verbatim>\<open>float\<close> is not code of this repository: its parser of strings
  (\<open>None\<close> where it raises ValueError) and its conversion of integers (\<open>None\<close> where
  it raises OverflowError) are parameters.
\<close>

record builtins =
  str_to_float :: "string \<Rightarrow> pyfloat option"
  int_to_float :: "int \<Rightarrow> pyfloat option"

fun py_float :: "builtins \<Rightarrow> json \<Rightarrow> exn + pyfloat" where
  "py_float bi (JStr s) =
     (case str_to_float bi s of None \<Rightarrow> Inl ValueError | Some x \<Rightarrow> Inr x)"
| "py_float bi (JInt n) =
     (case int_to_float bi n of None \<Rightarrow> Inl OverflowError | Some x \<Rightarrow> Inr x)"
| "py_float bi (JFloat x) = Inr x"
| "py_float bi (JBool b) = Inr (Fin (if b then 1 else 0))"
| "py_float bi d = Inl TypeError"

text \<open>\<^verbatim>\<open>float(data[key])\<close>.\<close>

definition float_of_field :: "builtins \<Rightarrow> json \<Rightarrow> string \<Rightarrow> exn + pyfloat" where
  "float_of_field bi data key =
     (case py_getitem data key of Inl e \<Rightarrow> Inl e | Inr v \<Rightarrow> py_float bi v)"

text \<open>\<^verbatim>\<open>sep.join(xs)\<close>.\<close>

fun join :: "string \<Rightarrow> string list \<Rightarrow> string" where
  "join sep [] = []"
| "join sep [x] = x"
| "join sep (x # y # ys) = x @ sep @ join sep (y # ys)"

definition required_fields :: "string list" where
  "required_fields = [''temperature'', ''humidity'', ''air_flow'', ''mrt'']"

text \<open>
  \<^verbatim>\<open>[field for field in fields if field not in data]\<close>, left to right; the
  comprehension stops at the first exception.
\<close>

fun missing_fields :: "json \<Rightarrow> string list \<Rightarrow> exn + string list" where
  "missing_fields data [] = Inr []"
| "missing_fields data (f # fs) =
     (case py_in f data of
        Inl e \<Rightarrow> Inl e
      | Inr present \<Rightarrow>
          (case missing_fields data fs of
             Inl e \<Rightarrow> Inl e
           | Inr ms \<Rightarrow> Inr (if present then ms else f # ms)))"

subsection \<open>Artifacts, state, requests and responses\<close>

type_synonym scaler_fn = "pyfloat list \<Rightarrow> exn + pyfloat list"
type_synonym model_fn = "pyfloat list \<Rightarrow> exn + pyfloat"

text \<open>
  The two module-level handles; \<open>None\<close> is Python's \<^verbatim>\<open>None\<close>. A scaler is its
  \<^verbatim>\<open>transform\<close> on one row, a model is \<^verbatim>\<open>float(model.predict(x)[0][0])\<close>.
\<close>

record artifacts =
  model :: "model_fn option"
  scaler :: "scaler_fn option"

text \<open>
  The module-level try/except: either load may raise, and the handler sets both names
  to \<^verbatim>\<open>None\<close>.
\<close>

definition load_artifacts :: "exn + model_fn \<Rightarrow> exn + scaler_fn \<Rightarrow> artifacts" where
  "load_artifacts load_model load_scaler =
     (case load_model of
        Inl e \<Rightarrow> \<lparr>model = None, scaler = None\<rparr>
      | Inr m \<Rightarrow>
          (case load_scaler of
             Inl e \<Rightarrow> \<lparr>model = None, scaler = None\<rparr>
           | Inr sc \<Rightarrow> \<lparr>model = Some m, scaler = Some sc\<rparr>))"

record reading =
  time :: string
  temperature :: pyfloat
  humidity :: pyfloat
  air_flow :: pyfloat
  mrt :: pyfloat
  pmv :: pyfloat
  thermal_comfort :: string

text \<open>
  The globals \<^verbatim>\<open>latest_sensor_data\<close> (\<open>None\<close> is the initial dict whose six values
  are all \<^verbatim>\<open>None\<close>) and \<^verbatim>\<open>sensor_data_history\<close>.
\<close>

record state =
  latest_sensor_data :: "reading option"
  sensor_data_history :: "reading list"

definition init_state :: state where
  "init_state = \<lparr>latest_sensor_data = None, sensor_data_history = []\<rparr>"

text \<open>
  A POST to \<^verbatim>\<open>/predict\<close>: what \<^verbatim>\<open>request.get_json()\<close> gives (a value, or the
  exception it raises) and what \<^verbatim>\<open>datetime.now().strftime(...)\<close> gives at that
  moment.
\<close>

record request =
  get_json :: "exn + json"
  now :: string

datatype body =
    Message string
  | Error string
  | ErrorOf exn
  | Prediction pyfloat string
  | Latest "reading option"
  | History "reading list"

type_synonym response = "body \<times> nat"

subsection \<open>The handler of /predict\<close>

text \<open>
  The inner try block: the four coercions in order, with \<^verbatim>\<open>except ValueError\<close>
  only. The result is the four floats, or \<open>Inl None\<close> for the 400 response of the
  handler, or \<open>Inl (Some e)\<close> for an exception that the handler lets through.
\<close>

definition coerce_fields ::
  "builtins \<Rightarrow> json \<Rightarrow> exn option + (pyfloat \<times> pyfloat \<times> pyfloat \<times> pyfloat)" where
  "coerce_fields bi data =
     (let caught = (\<lambda>e. if e = ValueError then Inl None else Inl (Some e)) in
      case float_of_field bi data ''temperature'' of
        Inl e \<Rightarrow> caught e
      | Inr suhu \<Rightarrow>
      (case float_of_field bi data ''humidity'' of
        Inl e \<Rightarrow> caught e
      | Inr hum \<Rightarrow>
      (case float_of_field bi data ''air_flow'' of
        Inl e \<Rightarrow> caught e
      | Inr af \<Rightarrow>
      (case float_of_field bi data ''mrt'' of
        Inl e \<Rightarrow> caught e
      | Inr m \<Rightarrow> Inr (suhu, hum, af, m)))))"

text \<open>
  The append to the history and the bound: \<^verbatim>\<open>append\<close>, then \<^verbatim>\<open>pop(0)\<close> when the
  length exceeds 100.
\<close>

definition append_bounded :: "reading list \<Rightarrow> reading \<Rightarrow> reading list" where
  "append_bounded h r = (let h' = h @ [r] in if length h' > 100 then tl h' else h')"

text \<open>
  The outer try block of \<^verbatim>\<open>predict\<close>. \<open>Inl e\<close> is an exception that reaches
  \<^verbatim>\<open>except Exception\<close>; every statement that can raise comes before the assignment
  to the globals, so the state is then the one before the request. Writing to the
  console is not modelled.
\<close>

definition predict_try ::
  "builtins \<Rightarrow> model_fn \<Rightarrow> scaler_fn \<Rightarrow> state \<Rightarrow> request \<Rightarrow> exn + (state \<times> response)" where
  "predict_try bi m sc s rq =
     (case get_json rq of
        Inl e \<Rightarrow> Inl e
      | Inr data \<Rightarrow>
      (case missing_fields data required_fields of
        Inl e \<Rightarrow> Inl e
      | Inr missing \<Rightarrow>
      if missing \<noteq> [] then
        Inr (s, (Error (''Parameter berikut harus diisi: '' @ join '', '' missing), 400))
      else
      (case coerce_fields bi data of
        Inl None \<Rightarrow> Inr (s, (Error ''Semua parameter harus berupa angka!'', 400))
      | Inl (Some e) \<Rightarrow> Inl e
      | Inr (suhu, hum, af, mr) \<Rightarrow>
      (case sc [suhu, hum, af, mr] of
        Inl e \<Rightarrow> Inl e
      | Inr input_scaled \<Rightarrow>
      (case m input_scaled of
        Inl e \<Rightarrow> Inl e
      | Inr raw \<Rightarrow>
        let pmv_value = np_clip raw (Fin (-3)) (Fin 3);
            tc_status = get_thermal_comfort_status pmv_value;
            r = \<lparr>time = now rq, temperature = suhu, humidity = hum, air_flow = af,
                 mrt = mr, pmv = pmv_value, thermal_comfort = tc_status\<rparr>
        in Inr (\<lparr>latest_sensor_data = Some r,
                  sensor_data_history = append_bounded (sensor_data_history s) r\<rparr>,
                (Prediction pmv_value tc_status, 200)))))))"

definition predict :: "builtins \<Rightarrow> artifacts \<Rightarrow> state \<Rightarrow> request \<Rightarrow> state \<times> response" where
  "predict bi art s rq =
     (case model art of
        None \<Rightarrow> (s, (Error ''Model atau scaler tidak dimuat dengan benar!'', 500))
      | Some m \<Rightarrow>
      (case scaler art of
        None \<Rightarrow> (s, (Error ''Model atau scaler tidak dimuat dengan benar!'', 500))
      | Some sc \<Rightarrow>
      (case predict_try bi m sc s rq of
        Inl e \<Rightarrow> (s, (ErrorOf e, 500))
      | Inr res \<Rightarrow> res)))"

subsection \<open>The other endpoints and the service as a whole\<close>

definition home :: "state \<Rightarrow> state \<times> response" where
  "home s = (s, (Message ''PMV Prediction API is running!'', 200))"

definition get_sensor_data :: "state \<Rightarrow> state \<times> response" where
  "get_sensor_data s = (s, (Latest (latest_sensor_data s), 200))"

definition get_sensor_data_history :: "state \<Rightarrow> state \<times> response" where
  "get_sensor_data_history s = (s, (History (sensor_data_history s), 200))"

datatype operation =
    GetHome
  | PostPredict request
  | GetSensorData
  | GetSensorDataHistory

fun handle :: "builtins \<Rightarrow> artifacts \<Rightarrow> state \<Rightarrow> operation \<Rightarrow> state \<times> response" where
  "handle bi art s GetHome = home s"
| "handle bi art s (PostPredict rq) = predict bi art s rq"
| "handle bi art s GetSensorData = get_sensor_data s"
| "handle bi art s GetSensorDataHistory = get_sensor_data_history s"

text \<open>The state after a sequence of requests, each handled to completion.\<close>

fun run :: "builtins \<Rightarrow> artifacts \<Rightarrow> state \<Rightarrow> operation list \<Rightarrow> state" where
  "run bi art s [] = s"
| "run bi art s (op # ops) = run bi art (fst (handle bi art s op)) ops"

subsection \<open>Notions used to state the properties\<close>

text \<open>The seven labels.\<close>

definition labels :: "string list" where
  "labels = [''Normal'', ''A bit Cool'', ''Cool'', ''Cold'', ''A bit Warm'', ''Warm'', ''Hot'']"

text \<open>
  The reading that a request to \<^verbatim>\<open>/predict\<close> stores when it succeeds (status 200),
  read off the handler itself; \<open>None\<close> when the request fails. The handler's result
  does not depend on the state it starts from but for the history it appends to.
\<close>

definition new_reading :: "builtins \<Rightarrow> artifacts \<Rightarrow> request \<Rightarrow> reading option" where
  "new_reading bi art rq =
     (let res = predict bi art init_state rq
      in if snd (snd res) = 200 then latest_sensor_data (fst res) else None)"

text \<open>The readings of the successful predictions of a sequence of requests, in order.\<close>

fun successes :: "builtins \<Rightarrow> artifacts \<Rightarrow> operation list \<Rightarrow> reading list" where
  "successes bi art [] = []"
| "successes bi art (PostPredict rq # ops) =
     (case new_reading bi art rq of
        None \<Rightarrow> successes bi art ops
      | Some r \<Rightarrow> r # successes bi art ops)"
| "successes bi art (op # ops) = successes bi art ops"

subsection \<open>A concrete instance\<close>

text \<open>
  A small instance on which the properties are evaluated: a \<^verbatim>\<open>float\<close> that parses two
  strings, a scaler that rejects infinities and is the identity otherwise, and a model
  whose prediction is its first feature.
\<close>

definition example_builtins :: builtins where
  "example_builtins =
     \<lparr>str_to_float = (\<lambda>s. if s = ''26.5'' then Some (Fin 26.5)
                           else if s = ''nan'' then Some NaN else None),
      int_to_float = (\<lambda>n. Some (Fin (of_int n)))\<rparr>"

definition example_scaler :: scaler_fn where
  "example_scaler xs = (if PInf \<in> set xs \<or> NInf \<in> set xs then Inl ValueError else Inr xs)"

definition example_model :: model_fn where
  "example_model xs = (case xs of [] \<Rightarrow> Inl (LibraryError ''empty input'') | x # _ \<Rightarrow> Inr x)"

definition example_artifacts :: artifacts where
  "example_artifacts = \<lparr>model = Some example_model, scaler = Some example_scaler\<rparr>"

definition example_payload :: "json \<Rightarrow> json" where
  "example_payload t =
     JObj [(''temperature'', t), (''humidity'', JInt 55),
           (''air_flow'', JFloat (Fin 0.2)), (''mrt'', JInt 27)]"

definition example_request :: "json \<Rightarrow> request" where
  "example_request t = \<lparr>get_json = Inr (example_payload t), now = ''2024-05-01 12:00:00''\<rparr>"

definition example_reading :: "pyfloat \<Rightarrow> pyfloat \<Rightarrow> string \<Rightarrow> reading" where
  "example_reading t p l =
     \<lparr>time = ''2024-05-01 12:00:00'', temperature = t, humidity = Fin 55,
      air_flow = Fin 0.2, mrt = Fin 27, pmv = p, thermal_comfort = l\<rparr>"

section \<open>Properties\<close>

subsection \<open>Auxiliary facts about the handler and the history\<close>

lemmas example_defs = example_builtins_def example_scaler_def example_model_def
  example_artifacts_def example_payload_def example_request_def example_reading_def

lemmas handler_defs = predict_def predict_try_def required_fields_def coerce_fields_def
  float_of_field_def np_clip_def np_maximum_def np_minimum_def
  get_thermal_comfort_status_def append_bounded_def

lemma predict_any_state:
  "predict bi art s rq =
     (case predict bi art init_state rq of
        (s0, (b, c)) \<Rightarrow>
          (case latest_sensor_data s0 of
             Some r \<Rightarrow> (\<lparr>latest_sensor_data = Some r,
                         sensor_data_history = append_bounded (sensor_data_history s) r\<rparr>, (b, c))
           | None \<Rightarrow> (s, (b, c))))"
  by (simp add: predict_def predict_try_def Let_def init_state_def
      split: option.splits sum.splits prod.splits)

lemma predict_status:
  "(snd (snd (predict bi art s rq)) = 200) =
     (latest_sensor_data (fst (predict bi art init_state rq)) \<noteq> None)"
  by (simp add: predict_def predict_try_def Let_def init_state_def
      split: option.splits sum.splits prod.splits)

lemma predict_new_reading:
  "fst (predict bi art s rq) =
     (case new_reading bi art rq of
        None \<Rightarrow> s
      | Some r \<Rightarrow> \<lparr>latest_sensor_data = Some r,
                    sensor_data_history = append_bounded (sensor_data_history s) r\<rparr>)"
proof -
  obtain s0 b c where p0: "predict bi art init_state rq = (s0, (b, c))"
    by (metis prod_cases3)
  have st: "(c = 200) = (latest_sensor_data s0 \<noteq> None)"
    using predict_status [of bi art init_state rq] p0 by simp
  show ?thesis
    using st by (subst predict_any_state) (auto simp add: p0 new_reading_def split: option.splits)
qed

lemma predict_failure_keeps_state:
  assumes "snd (snd (predict bi art s rq)) \<noteq> 200"
  shows "fst (predict bi art s rq) = s"
proof -
  obtain s0 b c where p0: "predict bi art init_state rq = (s0, (b, c))"
    by (metis prod_cases3)
  have "latest_sensor_data s0 = None"
    using assms predict_status [of bi art s rq] p0 by simp
  then show ?thesis
    by (subst predict_any_state) (simp add: p0)
qed

lemma fst_handle:
  "fst (handle bi art s op) =
     (case op of
        PostPredict rq \<Rightarrow>
          (case new_reading bi art rq of
             None \<Rightarrow> s
           | Some r \<Rightarrow> \<lparr>latest_sensor_data = Some r,
                         sensor_data_history = append_bounded (sensor_data_history s) r\<rparr>)
      | _ \<Rightarrow> s)"
  by (cases op) (simp_all add: predict_new_reading home_def get_sensor_data_def
      get_sensor_data_history_def)

lemma append_bounded_drop:
  assumes "length h \<le> 100"
  shows "append_bounded h r = drop (length (h @ [r]) - 100) (h @ [r])"
proof (cases "length h = 100")
  case True
  then have k: "length (h @ [r]) - 100 = Suc 0"
    by simp
  have "append_bounded h r = tl (h @ [r])"
    using True by (simp add: append_bounded_def Let_def)
  then show ?thesis
    unfolding k by (simp only: drop_Suc drop_0)
next
  case False
  with assms have lt: "length h < 100"
    by simp
  then have "append_bounded h r = h @ [r]"
    by (simp add: append_bounded_def Let_def)
  with lt show ?thesis
    by simp
qed

lemma length_append_bounded: "length h \<le> 100 \<Longrightarrow> length (append_bounded h r) \<le> 100"
  by (simp add: append_bounded_def Let_def)

lemma drop_tail_window:
  fixes n :: nat
  shows "drop (length (drop (length xs - n) xs @ rs) - n) (drop (length xs - n) xs @ rs) =
         drop (length (xs @ rs) - n) (xs @ rs)"
proof (cases "length xs \<le> n")
  case True
  then show ?thesis by simp
next
  case False
  define k where "k = length xs - n"
  have e: "drop k xs @ rs = drop k (xs @ rs)"
    by (simp add: k_def)
  have a: "length (xs @ rs) - n = (length (drop k (xs @ rs)) - n) + k"
    using False by (simp add: k_def)
  show ?thesis
    unfolding k_def [symmetric] e a by (simp only: drop_drop)
qed

lemma run_history:
  "length (sensor_data_history s) \<le> 100 \<Longrightarrow>
   sensor_data_history (run bi art s ops) =
     drop (length (sensor_data_history s @ successes bi art ops) - 100)
          (sensor_data_history s @ successes bi art ops)"
proof (induction ops arbitrary: s)
  case Nil
  then show ?case by simp
next
  case (Cons op ops)
  show ?case
  proof (cases "\<exists>rq r. op = PostPredict rq \<and> new_reading bi art rq = Some r")
    case False
    then have nr: "\<And>rq. op = PostPredict rq \<Longrightarrow> new_reading bi art rq = None"
      by (cases "new_reading bi art (case op of PostPredict rq \<Rightarrow> rq)") auto
    have same1: "fst (handle bi art s op) = s"
      by (cases op) (simp_all add: predict_new_reading nr home_def get_sensor_data_def
          get_sensor_data_history_def)
    have same2: "successes bi art (op # ops) = successes bi art ops"
      by (cases op) (simp_all add: nr)
    note same = same1 same2
    show ?thesis using Cons.IH [of s] Cons.prems by (simp add: same)
  next
    case True
    then obtain rq r where op: "op = PostPredict rq" and nr: "new_reading bi art rq = Some r"
      by blast
    let ?h = "sensor_data_history s"
    let ?s1 = "fst (handle bi art s op)"
    let ?rs = "successes bi art ops"
    have h1: "sensor_data_history ?s1 = append_bounded ?h r"
      by (simp add: predict_new_reading op nr)
    have len1: "length (sensor_data_history ?s1) \<le> 100"
      using Cons.prems by (simp add: h1 length_append_bounded)
    have succ: "successes bi art (op # ops) = r # ?rs"
      by (simp add: op nr)
    have "sensor_data_history (run bi art s (op # ops)) =
            drop (length (append_bounded ?h r @ ?rs) - 100) (append_bounded ?h r @ ?rs)"
      using Cons.IH [OF len1] by (simp add: h1)
    also have "\<dots> = drop (length ((?h @ [r]) @ ?rs) - 100) ((?h @ [r]) @ ?rs)"
      unfolding append_bounded_drop [OF Cons.prems] by (rule drop_tail_window)
    finally show ?thesis by (simp add: succ)
  qed
qed

lemma run_latest:
  "latest_sensor_data (run bi art s ops) =
     (if successes bi art ops = [] then latest_sensor_data s
      else Some (last (successes bi art ops)))"
proof (induction ops arbitrary: s)
  case Nil
  then show ?case by simp
next
  case (Cons op ops)
  show ?case
    by (cases op) (simp_all add: Cons.IH predict_new_reading home_def get_sensor_data_def
        get_sensor_data_history_def split: option.splits)
qed


lemmas eval_defs = handler_defs example_defs init_state_def Let_def home_def
  get_sensor_data_def get_sensor_data_history_def

lemma new_reading_iff_success:
  "(new_reading bi art rq \<noteq> None) = (snd (snd (predict bi art s rq)) = 200)"
  using predict_status [of bi art s rq] predict_status [of bi art init_state rq]
  by (simp add: new_reading_def Let_def)


lemma new_reading_example_0:
  "new_reading example_builtins example_artifacts (example_request (JInt 0)) =
     Some (example_reading (Fin 0) (Fin 0) ''Normal'')"
  by (simp add: new_reading_def eval_defs)

lemma new_reading_example_26:
  "new_reading example_builtins example_artifacts (example_request (JInt 26)) =
     Some (example_reading (Fin 26) (Fin 3) ''Hot'')"
  by (simp add: new_reading_def eval_defs)

lemma new_reading_example_null:
  "new_reading example_builtins example_artifacts (example_request JNull) = None"
  by (simp add: new_reading_def eval_defs)

lemma missing_fields_JObj:
  "missing_fields (JObj kvs) fs = Inr (filter (\<lambda>f. f \<notin> set (map fst kvs)) fs)"
  by (induction fs) simp_all


lemma missing_fields_message:
  assumes "model art = Some m" and "scaler art = Some sc"
    and "get_json rq = Inr (JObj kvs)"
    and "filter (\<lambda>f. f \<notin> set (map fst kvs)) required_fields \<noteq> []"
  shows "predict bi art s rq =
           (s, (Error (''Parameter berikut harus diisi: '' @
                  join '', '' (filter (\<lambda>f. f \<notin> set (map fst kvs)) required_fields)), 400))"
  using assms by (simp add: predict_def predict_try_def missing_fields_JObj)

lemma np_clip_range_or_nan:
  "isnan (np_clip raw (Fin (-3)) (Fin 3))
   \<or> (fle (Fin (-3)) (np_clip raw (Fin (-3)) (Fin 3)) \<and> fle (np_clip raw (Fin (-3)) (Fin 3)) (Fin 3))"
  by (cases raw) (auto simp add: np_clip_def np_maximum_def np_minimum_def)

lemma predict_pmv_in_range_or_nan:
  "predict bi art s rq = (s', (Prediction p l, c)) \<Longrightarrow>
   isnan p \<or> (fle (Fin (-3)) p \<and> fle p (Fin 3))"
  using np_clip_range_or_nan
  by (auto simp add: predict_def predict_try_def Let_def
      split: option.splits sum.splits prod.splits if_splits)

lemma coercion_value_error_is_400:
  "str_to_float bi ''abc'' = None \<Longrightarrow>
   predict bi \<lparr>model = Some m, scaler = Some sc\<rparr> s
     \<lparr>get_json = Inr (example_payload (JStr ''abc'')), now = t\<rparr> =
     (s, (Error ''Semua parameter harus berupa angka!'', 400))"
  by (simp add: predict_def predict_try_def required_fields_def coerce_fields_def
      float_of_field_def example_payload_def)


subsection \<open>The classifier\<close>

text \<open>
  C1. On every real input the classifier returns the label of the row of the table that
  the input satisfies: Normal on (-1, 1), A bit Cool on (-2, -1], Cool on (-3, -2], Cold
  on (-inf, -3], A bit Warm on [1, 2), Warm on [2, 3) and Hot on [3, inf). The rows are
  stated independently of their order, so the first matching row is the only matching
  row; at the boundaries -1 and 1 the labels are A bit Cool and A bit Warm.
\<close>

theorem classify_table:
  fixes r :: real
  shows "(-1 < r \<and> r < 1 \<longrightarrow> get_thermal_comfort_status (Fin r) = ''Normal'')
       \<and> (-2 < r \<and> r \<le> -1 \<longrightarrow> get_thermal_comfort_status (Fin r) = ''A bit Cool'')
       \<and> (-3 < r \<and> r \<le> -2 \<longrightarrow> get_thermal_comfort_status (Fin r) = ''Cool'')
       \<and> (r \<le> -3 \<longrightarrow> get_thermal_comfort_status (Fin r) = ''Cold'')
       \<and> (1 \<le> r \<and> r < 2 \<longrightarrow> get_thermal_comfort_status (Fin r) = ''A bit Warm'')
       \<and> (2 \<le> r \<and> r < 3 \<longrightarrow> get_thermal_comfort_status (Fin r) = ''Warm'')
       \<and> (3 \<le> r \<longrightarrow> get_thermal_comfort_status (Fin r) = ''Hot'')"
  by (simp add: get_thermal_comfort_status_def)

theorem classify_table_witness:
  "get_thermal_comfort_status (Fin 0) = ''Normal''
   \<and> get_thermal_comfort_status (Fin (-1)) = ''A bit Cool''
   \<and> get_thermal_comfort_status (Fin (-2)) = ''Cool''
   \<and> get_thermal_comfort_status (Fin (-3)) = ''Cold''
   \<and> get_thermal_comfort_status (Fin 1) = ''A bit Warm''
   \<and> get_thermal_comfort_status (Fin 2) = ''Warm''
   \<and> get_thermal_comfort_status (Fin 3) = ''Hot''"
  using classify_table [of 0] classify_table [of "-1"] classify_table [of "-2"]
    classify_table [of "-3"] classify_table [of 1] classify_table [of 2] classify_table [of 3]
  by simp

text \<open>
  C10. The last branch of the classifier is a catch-all: an input that satisfies none of
  the six range conditions is labelled Hot. NaN is such an input, since every comparison
  with it is false, so the classifier labels NaN Hot. The inputs labelled Hot are exactly
  NaN and the values from 3 upwards, and every input, NaN and the infinities included,
  gets one of the seven labels: the function has no failing branch.
\<close>

theorem classify_catch_all:
  "(\<not> (flt (Fin (-1)) x \<and> flt x (Fin 1)) \<and> \<not> (flt (Fin (-2)) x \<and> fle x (Fin (-1)))
      \<and> \<not> (flt (Fin (-3)) x \<and> fle x (Fin (-2))) \<and> \<not> fle x (Fin (-3))
      \<and> \<not> (fle (Fin 1) x \<and> flt x (Fin 2)) \<and> \<not> (fle (Fin 2) x \<and> flt x (Fin 3))
      \<longrightarrow> get_thermal_comfort_status x = ''Hot'')
   \<and> get_thermal_comfort_status NaN = ''Hot''
   \<and> (get_thermal_comfort_status x = ''Hot'' \<longleftrightarrow> isnan x \<or> fle (Fin 3) x)
   \<and> get_thermal_comfort_status x \<in> set labels"
  by (cases x) (auto simp add: get_thermal_comfort_status_def labels_def)

theorem classify_catch_all_witness:
  "get_thermal_comfort_status NaN = ''Hot'' \<and> get_thermal_comfort_status PInf = ''Hot''
   \<and> get_thermal_comfort_status (Fin 7) = ''Hot''"
  using classify_catch_all [of NaN] classify_catch_all [of PInf] classify_catch_all [of "Fin 7"]
  by simp

subsection \<open>The history and the latest reading\<close>

text \<open>
  C3. After every sequence of requests (predictions that succeed or fail, and GET
  requests) handled from the start of the process, the history holds at most 100
  readings. The sequence is arbitrary, so the bound holds after each of its requests.
\<close>

theorem history_bounded:
  "length (sensor_data_history (run bi art init_state ops)) \<le> 100"
proof -
  have "length (sensor_data_history init_state) \<le> 100"
    by (simp add: init_state_def)
  from run_history [OF this] show ?thesis
    by simp
qed

theorem history_bounded_witness:
  "length (sensor_data_history (run example_builtins example_artifacts init_state
     (replicate 150 (PostPredict (example_request (JInt 26)))))) \<le> 100"
  by (rule history_bounded)

text \<open>
  C4. After every sequence of requests, when the history is not empty the latest reading
  is the last element of the history.
\<close>

theorem latest_is_last_of_history:
  assumes "sensor_data_history (run bi art init_state ops) \<noteq> []"
  shows "latest_sensor_data (run bi art init_state ops) =
           Some (last (sensor_data_history (run bi art init_state ops)))"
proof -
  let ?rs = "successes bi art ops"
  have "length (sensor_data_history init_state) \<le> 100"
    by (simp add: init_state_def)
  from run_history [OF this]
  have h: "sensor_data_history (run bi art init_state ops) = drop (length ?rs - 100) ?rs"
    by (simp add: init_state_def)
  with assms have ne: "?rs \<noteq> []"
    by auto
  have "length ?rs - 100 < length ?rs"
    using ne by (cases ?rs) simp_all
  then have "last (drop (length ?rs - 100) ?rs) = last ?rs"
    by (rule last_drop)
  with ne h show ?thesis
    by (simp add: run_latest)
qed


theorem latest_is_last_of_history_witness:
  "sensor_data_history (run example_builtins example_artifacts init_state
      [PostPredict (example_request (JInt 0)), GetSensorData,
       PostPredict (example_request JNull), PostPredict (example_request (JInt 26))]) \<noteq> []
   \<and> latest_sensor_data (run example_builtins example_artifacts init_state
      [PostPredict (example_request (JInt 0)), GetSensorData,
       PostPredict (example_request JNull), PostPredict (example_request (JInt 26))]) =
     Some (example_reading (Fin 26) (Fin 3) ''Hot'')"
proof -
  let ?ops = "[PostPredict (example_request (JInt 0)), GetSensorData,
       PostPredict (example_request JNull), PostPredict (example_request (JInt 26))]"
  have h: "sensor_data_history (run example_builtins example_artifacts init_state ?ops) =
             [example_reading (Fin 0) (Fin 0) ''Normal'', example_reading (Fin 26) (Fin 3) ''Hot'']"
    by (simp add: predict_new_reading new_reading_example_0 new_reading_example_26
        new_reading_example_null get_sensor_data_def init_state_def append_bounded_def)
  then have ne: "sensor_data_history (run example_builtins example_artifacts init_state ?ops) \<noteq> []"
    by simp
  from latest_is_last_of_history [OF ne] h ne show ?thesis
    by simp
qed



subsection \<open>The clamp in the handler\<close>




subsection \<open>Validation of the payload\<close>

text \<open>
  C6. With the artifacts loaded, a request whose payload is a JSON object that lacks at
  least one of the four keys temperature, humidity, air_flow, mrt gets status 400 and
  the message that names exactly the absent keys, all of them at once: for each of the
  fifteen ways of lacking a key the message is written out below. The state is
  unchanged, and the response is the same for every float parser, scaler and model:
  none of them is consulted.
\<close>

theorem missing_fields_rejected:
  assumes "model art = Some m" and "scaler art = Some sc"
    and "get_json rq = Inr (JObj kvs)"
    and "keys = set (map fst kvs)"
    and "\<not> (''temperature'' \<in> keys \<and> ''humidity'' \<in> keys
             \<and> ''air_flow'' \<in> keys \<and> ''mrt'' \<in> keys)"
  shows "predict bi art s rq =
    (s, (Error (''Parameter berikut harus diisi: '' @
      (if ''temperature'' \<in> keys then
         (if ''humidity'' \<in> keys then
            (if ''air_flow'' \<in> keys then ''mrt''
             else if ''mrt'' \<in> keys then ''air_flow''
             else ''air_flow, mrt'')
          else
            (if ''air_flow'' \<in> keys then
               (if ''mrt'' \<in> keys then ''humidity''
                else ''humidity, mrt'')
             else if ''mrt'' \<in> keys then ''humidity, air_flow''
             else ''humidity, air_flow, mrt''))
       else
         (if ''humidity'' \<in> keys then
            (if ''air_flow'' \<in> keys then
               (if ''mrt'' \<in> keys then ''temperature''
                else ''temperature, mrt'')
             else if ''mrt'' \<in> keys then ''temperature, air_flow''
             else ''temperature, air_flow, mrt'')
          else
            (if ''air_flow'' \<in> keys then
               (if ''mrt'' \<in> keys then ''temperature, humidity''
                else ''temperature, humidity, mrt'')
             else if ''mrt'' \<in> keys then ''temperature, humidity, air_flow''
             else ''temperature, humidity, air_flow, mrt'')))), 400))"
proof -
  have ne: "filter (\<lambda>f. f \<notin> set (map fst kvs)) required_fields \<noteq> []"
    using assms(4,5) by (auto simp add: required_fields_def)
  show ?thesis
    unfolding missing_fields_message [OF assms(1-3) ne]
    using assms(5) by (simp add: required_fields_def assms(4))
qed

theorem missing_fields_rejected_witness:
  "predict example_builtins example_artifacts init_state
     \<lparr>get_json = Inr (JObj [(''temperature'', JInt 26), (''humidity'', JInt 55)]),
      now = ''2024-05-01 12:00:00''\<rparr> =
     (init_state, (Error ''Parameter berikut harus diisi: air_flow, mrt'', 400))
   \<and> predict example_builtins example_artifacts init_state
     \<lparr>get_json = Inr (JObj []), now = ''2024-05-01 12:00:00''\<rparr> =
     (init_state,
      (Error ''Parameter berikut harus diisi: temperature, humidity, air_flow, mrt'', 400))
   \<and> predict example_builtins example_artifacts init_state
     \<lparr>get_json = Inr (JObj [(''mrt'', JInt 27), (''air_flow'', JStr ''abc''),
                             (''humidity'', JNull)]),
      now = ''2024-05-01 12:00:00''\<rparr> =
     (init_state, (Error ''Parameter berikut harus diisi: temperature'', 400))
   \<and> predict example_builtins example_artifacts init_state
     \<lparr>get_json = Inr (JObj [(''temperature'', JInt 26), (''air_flow'', JFloat (Fin 0.2))]),
      now = ''2024-05-01 12:00:00''\<rparr> =
     (init_state, (Error ''Parameter berikut harus diisi: humidity, mrt'', 400))"
proof -
  have m: "model example_artifacts = Some example_model"
    and sc: "scaler example_artifacts = Some example_scaler"
    by (simp_all add: example_artifacts_def)
  have g: "\<And>kvs. get_json \<lparr>get_json = Inr (JObj kvs), now = ''2024-05-01 12:00:00''\<rparr> =
             Inr (JObj kvs)"
    by simp
  show ?thesis
    using
      missing_fields_rejected [OF m sc g refl,
        of "[(''temperature'', JInt 26), (''humidity'', JInt 55)]" example_builtins init_state]
      missing_fields_rejected [OF m sc g refl, of "[]" example_builtins init_state]
      missing_fields_rejected [OF m sc g refl,
        of "[(''mrt'', JInt 27), (''air_flow'', JStr ''abc''), (''humidity'', JNull)]"
           example_builtins init_state]
      missing_fields_rejected [OF m sc g refl,
        of "[(''temperature'', JInt 26), (''air_flow'', JFloat (Fin 0.2))]"
           example_builtins init_state]
    by simp
qed

text \<open>
  C7 does not hold on the code. With the artifacts loaded and all four keys present, a
  temperature of JSON null cannot be coerced: float raises TypeError, which the inner
  handler (ValueError only) lets through, and the outer handler answers with status
  500. A string that is not a number, on the same path, gets the generic message with
  status 400 (lemma coercion_value_error_is_400).
\<close>

theorem coercion_type_error_is_500:
  "predict bi \<lparr>model = Some m, scaler = Some sc\<rparr> s
     \<lparr>get_json = Inr (example_payload JNull), now = t\<rparr> =
     (s, (ErrorOf TypeError, 500))"
  by (simp add: predict_def predict_try_def required_fields_def coerce_fields_def
      float_of_field_def example_payload_def)

subsection \<open>Degraded mode\<close>

text \<open>
  C8. When loading the model or the scaler raises, both handles are None; the service
  then answers every prediction request with status 500 and the message that the model
  or scaler is not loaded, whatever the request holds and without touching the state,
  and the three GET endpoints answer with status 200 as usual. Loading returns the two
  handles in every case, so the process goes on.
\<close>

theorem degraded_mode:
  assumes "isl load_model \<or> isl load_scaler"
  shows "model (load_artifacts load_model load_scaler) = None
       \<and> scaler (load_artifacts load_model load_scaler) = None
       \<and> handle bi (load_artifacts load_model load_scaler) s (PostPredict rq) =
           (s, (Error ''Model atau scaler tidak dimuat dengan benar!'', 500))
       \<and> handle bi (load_artifacts load_model load_scaler) s GetHome =
           (s, (Message ''PMV Prediction API is running!'', 200))
       \<and> handle bi (load_artifacts load_model load_scaler) s GetSensorData =
           (s, (Latest (latest_sensor_data s), 200))
       \<and> handle bi (load_artifacts load_model load_scaler) s GetSensorDataHistory =
           (s, (History (sensor_data_history s), 200))"
proof -
  have "load_artifacts load_model load_scaler = \<lparr>model = None, scaler = None\<rparr>"
    using assms by (auto simp add: load_artifacts_def isl_def split: sum.splits)
  then show ?thesis
    by (simp add: predict_def home_def get_sensor_data_def get_sensor_data_history_def)
qed

theorem degraded_mode_witness:
  "handle example_builtins
     (load_artifacts (Inl (LibraryError ''model_pmv.h5 not found'')) (Inr example_scaler))
     init_state (PostPredict (example_request (JInt 26))) =
     (init_state, (Error ''Model atau scaler tidak dimuat dengan benar!'', 500))
   \<and> handle example_builtins
     (load_artifacts (Inl (LibraryError ''model_pmv.h5 not found'')) (Inr example_scaler))
     init_state GetSensorData = (init_state, (Latest None, 200))
   \<and> handle example_builtins
     (load_artifacts (Inr example_model) (Inl (LibraryError ''scaler.pkl not found'')))
     init_state GetSensorDataHistory = (init_state, (History [], 200))"
proof -
  have a: "isl (Inl (LibraryError ''model_pmv.h5 not found'') :: exn + model_fn) \<or> isl (Inr example_scaler :: exn + scaler_fn)"
    by simp
  have b: "isl (Inr example_model :: exn + model_fn) \<or> isl (Inl (LibraryError ''scaler.pkl not found'') :: exn + scaler_fn)"
    by simp
  show ?thesis
    using degraded_mode [OF a, of example_builtins init_state "example_request (JInt 26)"]
      degraded_mode [OF b, of example_builtins init_state "example_request (JInt 26)"]
    by (simp add: init_state_def)
qed

subsection \<open>Failing requests and the state\<close>

text \<open>
  C9. A request answered with a status other than 200 leaves the latest reading and the
  history as they were; a request that changes the state is a prediction answered with
  status 200; the three GET endpoints never change the state.
\<close>

theorem failed_requests_keep_state:
  "(snd (snd (handle bi art s op)) \<noteq> 200 \<longrightarrow> fst (handle bi art s op) = s)
   \<and> (fst (handle bi art s op) \<noteq> s \<longrightarrow>
        (\<exists>rq. op = PostPredict rq) \<and> snd (snd (handle bi art s op)) = 200)
   \<and> fst (handle bi art s GetHome) = s
   \<and> fst (handle bi art s GetSensorData) = s
   \<and> fst (handle bi art s GetSensorDataHistory) = s"
  using predict_failure_keeps_state
  by (cases op) (auto simp add: home_def get_sensor_data_def get_sensor_data_history_def)


theorem failed_requests_keep_state_witness:
  "fst (handle example_builtins example_artifacts init_state
          (PostPredict (example_request JNull))) = init_state
   \<and> fst (handle example_builtins example_artifacts init_state
          (PostPredict (example_request (JStr ''abc'')))) = init_state
   \<and> fst (handle example_builtins example_artifacts init_state
          (PostPredict (example_request (JFloat PInf)))) = init_state
   \<and> fst (handle example_builtins example_artifacts init_state
          (PostPredict \<lparr>get_json = Inl (HTTPError ''400 Bad Request''), now = ''t''\<rparr>)) = init_state
   \<and> snd (snd (handle example_builtins example_artifacts init_state
          (PostPredict (example_request (JInt 26))))) = 200"
proof -
  have a: "snd (snd (handle example_builtins example_artifacts init_state
          (PostPredict (example_request JNull)))) \<noteq> 200"
    by (simp add: eval_defs)
  have b: "snd (snd (handle example_builtins example_artifacts init_state
          (PostPredict (example_request (JStr ''abc''))))) \<noteq> 200"
    by (simp add: eval_defs)
  have c: "snd (snd (handle example_builtins example_artifacts init_state
          (PostPredict (example_request (JFloat PInf))))) \<noteq> 200"
    by (simp add: eval_defs)
  have d: "snd (snd (handle example_builtins example_artifacts init_state
          (PostPredict \<lparr>get_json = Inl (HTTPError ''400 Bad Request''), now = ''t''\<rparr>))) \<noteq> 200"
    by (simp add: eval_defs)
  have e: "fst (handle example_builtins example_artifacts init_state
          (PostPredict (example_request (JInt 26)))) \<noteq> init_state"
    by (simp add: eval_defs)
  show ?thesis
    using a b c d e
      failed_requests_keep_state [of example_builtins example_artifacts init_state
        "PostPredict (example_request JNull)"]
      failed_requests_keep_state [of example_builtins example_artifacts init_state
        "PostPredict (example_request (JStr ''abc''))"]
      failed_requests_keep_state [of example_builtins example_artifacts init_state
        "PostPredict (example_request (JFloat PInf))"]
      failed_requests_keep_state [of example_builtins example_artifacts init_state
        "PostPredict \<lparr>get_json = Inl (HTTPError ''400 Bad Request''), now = ''t''\<rparr>"]
      failed_requests_keep_state [of example_builtins example_artifacts init_state
        "PostPredict (example_request (JInt 26))"]
    by blast
qed

end
